theory Spec2Isabelle
  imports Complex_Main
begin

section \<open>Data model\<close>

subsection \<open>Schema types\<close>

text \<open>
  A field's or argument's type as the graphql library represents it: a
  \<^verbatim>\<open>GraphQLNonNull\<close> or \<^verbatim>\<open>GraphQLList\<close> wrapper with its \<^verbatim>\<open>ofType\<close>, or a named
  type. The library holds a reference to the named type's object; here the reference
  is the type's name, resolved through the schema's type map.
\<close>

datatype typeref = Named string | NonNull typeref | ListOf typeref

record arg_def =
  arg_name :: string
  arg_type :: typeref

record field_def =
  field_name :: string
  field_args :: "arg_def list"
  field_type :: typeref

text \<open>
  The named types of a schema, one constructor per class of the graphql library. An
  object or interface type carries its fields in the order of
  \<^verbatim>\<open>Object.values(type.getFields())\<close>, which is declaration order.
\<close>

datatype named_type =
    GraphQLScalarType
  | GraphQLEnumType
  | GraphQLObjectType "field_def list"
  | GraphQLInterfaceType "field_def list"
  | GraphQLUnionType "string list"
  | GraphQLInputObjectType "field_def list"

type_synonym type_map = "string \<Rightarrow> named_type"

text \<open>
  The introspected schema: its type map, the fields of the query type, and the fields
  of the mutation type when the schema has one (\<^verbatim>\<open>getMutationType()\<close> is
  \<^verbatim>\<open>undefined\<close> otherwise).
\<close>

record schema =
  types :: type_map
  queryType :: "field_def list"
  mutationType :: "field_def list option"

subsection \<open>JavaScript values\<close>

text \<open>
  The values a projection can hold. An object is the list of its own enumerable
  properties in the order of \<^verbatim>\<open>Object.entries\<close>. Strings, arrays and functions as
  projection values are not modelled.
\<close>

datatype jsval = Undefined | Null | Bool bool | Num int
  | Obj "(string \<times> jsval) list"

type_synonym projection = "(string \<times> jsval) list"

text \<open>Truthiness, as \<^verbatim>\<open>if (v)\<close> and \<^verbatim>\<open>!v\<close> decide it.\<close>

fun truthy :: "jsval \<Rightarrow> bool" where
  "truthy Undefined = False"
| "truthy Null = False"
| "truthy (Bool b) = b"
| "truthy (Num n) = (n \<noteq> 0)"
| "truthy (Obj es) = True"

text \<open>\<^verbatim>\<open>typeof v === 'object'\<close>: true of objects and of \<^verbatim>\<open>null\<close>.\<close>

fun typeof_object :: "jsval \<Rightarrow> bool" where
  "typeof_object Null = True"
| "typeof_object (Obj es) = True"
| "typeof_object v = False"

text \<open>
  lodash's \<^verbatim>\<open>isEmpty\<close>: an object is empty when it has no own enumerable property;
  \<^verbatim>\<open>null\<close>, \<^verbatim>\<open>undefined\<close>, booleans and numbers are all empty.
\<close>

fun isEmpty :: "jsval \<Rightarrow> bool" where
  "isEmpty (Obj es) = (es = [])"
| "isEmpty v = True"

subsection \<open>Errors\<close>

text \<open>
  What a transport error carries for the operation's handler: the optional
  \<^verbatim>\<open>networkError\<close> and its optional numeric \<^verbatim>\<open>statusCode\<close>.
\<close>

datatype network_error = NetworkError (statusCode: "int option")

datatype error =
    TypeError
  | TransportError (transport_networkError: "network_error option") (message: string)

fun networkError :: "error \<Rightarrow> network_error option" where
  "networkError TypeError = None"
| "networkError (TransportError ne m) = ne"

section \<open>Type Expression Renderer\<close>

fun makeFieldTypeExpr :: "typeref \<Rightarrow> string" where
  "makeFieldTypeExpr (NonNull ofType) = makeFieldTypeExpr ofType @ ''!''"
| "makeFieldTypeExpr (ListOf ofType) = ''['' @ makeFieldTypeExpr ofType @ '']''"
| "makeFieldTypeExpr (Named name) = name"

section \<open>Selection set rendering\<close>

text \<open>\<^verbatim>\<open>Array.prototype.join\<close> on strings.\<close>

fun join :: "string \<Rightarrow> string list \<Rightarrow> string" where
  "join sep [] = ''''"
| "join sep [x] = x"
| "join sep (x # y # ys) = x @ sep @ join sep (y # ys)"

text \<open>
  \<^verbatim>\<open>.filter(v => v)\<close> on the mapped entries: each is a string, or \<^verbatim>\<open>undefined\<close>
  (\<open>None\<close>) where the callback returned nothing; \<^verbatim>\<open>undefined\<close> and the empty string
  are falsy.
\<close>

fun filter_truthy :: "string option list \<Rightarrow> string list" where
  "filter_truthy [] = []"
| "filter_truthy (None # vs) = filter_truthy vs"
| "filter_truthy (Some s # vs) =
     (if s = '''' then filter_truthy vs else s # filter_truthy vs)"

text \<open>
  \<^verbatim>\<open>_makeReturnExpr\<close>. A falsy argument gives the empty string at once; a truthy
  boolean or number has no entries, so its \<^verbatim>\<open>expr\<close> is empty as well.
\<close>

fun makeReturnExpr :: "jsval \<Rightarrow> string" where
  "makeReturnExpr (Obj es) =
     (let expr = join '', '' (filter_truthy
            (map (\<lambda>(field, show).
                if typeof_object show then Some (field @ '' '' @ makeReturnExpr show)
                else if truthy show then Some field
                else None) es))
      in if expr \<noteq> '''' then ''{'' @ expr @ ''}'' else '''')"
| "makeReturnExpr v = ''''"

section \<open>Default Projection Selector\<close>

text \<open>\<^verbatim>\<open>getNamedType\<close> of the graphql library: strips every wrapper.\<close>

fun getNamedType :: "typeref \<Rightarrow> string" where
  "getNamedType (Named name) = name"
| "getNamedType (NonNull ofType) = getNamedType ofType"
| "getNamedType (ListOf ofType) = getNamedType ofType"

text \<open>
  \<^verbatim>\<open>isLeafType\<close> of the graphql library:
  \<^verbatim>\<open>isScalarType(type) || isEnumType(type)\<close>, two \<^verbatim>\<open>instanceof\<close> tests on the
  value it is given. It does not unwrap: a \<^verbatim>\<open>GraphQLNonNull\<close> or \<^verbatim>\<open>GraphQLList\<close> is
  an instance of neither class.
\<close>

fun isLeafType :: "type_map \<Rightarrow> typeref \<Rightarrow> bool" where
  "isLeafType tm (Named name) =
     (case tm name of GraphQLScalarType \<Rightarrow> True | GraphQLEnumType \<Rightarrow> True | _ \<Rightarrow> False)"
| "isLeafType tm (NonNull ofType) = False"
| "isLeafType tm (ListOf ofType) = False"


text \<open>
  \<^verbatim>\<open>_makeDefaultProjection\<close>, given the name of the named return type. The \<^verbatim>\<open>for\<close>
  loop returns at the first field that passes \<^verbatim>\<open>isLeafType\<close>; after the loop,
  destructuring the first field of an empty list gives \<^verbatim>\<open>undefined\<close>, and reading its
  \<^verbatim>\<open>name\<close> throws a TypeError. The recursion follows the schema's type graph, which
  may be cyclic: \<open>None\<close> is a recursion that never returns.
\<close>

partial_function (option) makeDefaultProjection ::
  "type_map \<Rightarrow> string \<Rightarrow> (error + projection) option" where
  "makeDefaultProjection tm returnType =
     (case tm returnType of
        GraphQLObjectType fs \<Rightarrow>
          (case find (\<lambda>field. isLeafType tm (field_type field)) fs of
             Some field \<Rightarrow> Some (Inr [(field_name field, Bool True)])
           | None \<Rightarrow>
              (case fs of
                 [] \<Rightarrow> Some (Inl TypeError)
               | field # rest \<Rightarrow>
                   Option.bind (makeDefaultProjection tm (getNamedType (field_type field)))
                     (\<lambda>r. case r of
                        Inl e \<Rightarrow> Some (Inl e)
                      | Inr sub \<Rightarrow> Some (Inr [(field_name field, Obj sub)]))))
      | _ \<Rightarrow> Some (Inr []))"

section \<open>Transport Session Manager\<close>


datatype kind = Query | Mutation

record operation =
  op_kind :: kind
  op_field :: string
  queryArgDeclare :: string
  queryArgs :: string
  defaultProjections :: projection

record 'l client =
  logger :: 'l
  resetStoreEvery :: int
  apollo :: "nat option"
  counter :: int
  constructed :: nat
  operations :: "string \<rightharpoonup> operation"

definition MAX_SAFE_INTEGER :: int where
  "MAX_SAFE_INTEGER = 9007199254740991"

text \<open>The constructor, with \<^verbatim>\<open>otherOptions = {resetStoreEvery: t}\<close>.\<close>

definition GraphQLClient :: "'l \<Rightarrow> int \<Rightarrow> 'l client" where
  "GraphQLClient lg t =
     \<lparr>logger = lg, resetStoreEvery = t, apollo = None, counter = MAX_SAFE_INTEGER,
      constructed = 0, operations = Map.empty\<rparr>"

text \<open>
  \<^verbatim>\<open>counter++\<close> on a Number holding an integer of at most \<open>2^53\<close>: exact below
  \<open>2^53\<close>; \<open>2^53 + 1\<close> is not a Number and rounds back to \<open>2^53\<close>.
\<close>

definition increment :: "int \<Rightarrow> int" where
  "increment n = (if n < 9007199254740992 then n + 1 else n)"

definition ensureClient :: "'l client \<Rightarrow> 'l client" where
  "ensureClient c =
     (let c1 = (if counter c \<ge> resetStoreEvery c
                then c\<lparr>apollo := Some (constructed c),
                       constructed := Suc (constructed c),
                       counter := 0\<rparr>
                else c)
      in c1\<lparr>counter := increment (counter c1)\<rparr>)"

section \<open>Operation Synthesizer\<close>

text \<open>
  The values an operation's closure holds: the two argument texts and the default
  projection, computed once per field in the loop body of \<^verbatim>\<open>_connect\<close>. The default
  projection may raise or fail to return, and then so does the loop.
\<close>

definition synthesize :: "kind \<Rightarrow> type_map \<Rightarrow> field_def \<Rightarrow> (error + operation) option" where
  "synthesize k tm field =
     (let decl = join '', '' (map (\<lambda>a. ''$'' @ arg_name a @ '': '' @ makeFieldTypeExpr (arg_type a))
                   (field_args field));
          args = join '', '' (map (\<lambda>a. arg_name a @ '': $'' @ arg_name a) (field_args field))
      in Option.bind (makeDefaultProjection tm (getNamedType (field_type field)))
           (\<lambda>r. case r of
              Inl e \<Rightarrow> Some (Inl e)
            | Inr d \<Rightarrow> Some (Inr \<lparr>op_kind = k, op_field = field_name field,
                                   queryArgDeclare = decl, queryArgs = args,
                                   defaultProjections = d\<rparr>)))"

text \<open>One \<^verbatim>\<open>for\<close> loop of \<^verbatim>\<open>_connect\<close>: \<^verbatim>\<open>this[field.name] = ...\<close> for each field in turn.\<close>

fun install :: "kind \<Rightarrow> type_map \<Rightarrow> field_def list \<Rightarrow> (string \<rightharpoonup> operation)
    \<Rightarrow> (error + (string \<rightharpoonup> operation)) option" where
  "install k tm [] ops = Some (Inr ops)"
| "install k tm (field # rest) ops =
     Option.bind (synthesize k tm field)
       (\<lambda>r. case r of
          Inl e \<Rightarrow> Some (Inl e)
        | Inr op \<Rightarrow> install k tm rest (ops(field_name field \<mapsto> op)))"

text \<open>
  \<^verbatim>\<open>_connect\<close> of \<^verbatim>\<open>src/index.js\<close>, on the schema that introspection returned and
  that line 31 stores in \<^verbatim>\<open>this.schema\<close>: the query loop, whose field list is read
  once before the first iteration, then \<^verbatim>\<open>if (this.schema.getMutationType())\<close> and
  the mutation loop under it. When a query field is named \<^verbatim>\<open>schema\<close>, the query loop
  has replaced \<^verbatim>\<open>this.schema\<close> by that field's operation, a function without a
  \<^verbatim>\<open>getMutationType\<close> member, and the call on line 57 throws a TypeError. A mutation
  field of that name replaces \<^verbatim>\<open>this.schema\<close> after its last use.
\<close>

definition connect :: "schema \<Rightarrow> 'l client \<Rightarrow> (error + 'l client) option" where
  "connect s c =
     Option.bind (install Query (types s) (queryType s) (operations c))
       (\<lambda>r. case r of
          Inl e \<Rightarrow> Some (Inl e)
        | Inr ops \<Rightarrow>
           if ''schema'' \<in> set (map field_name (queryType s)) then Some (Inl TypeError)
           else
           (case mutationType s of
              None \<Rightarrow> Some (Inr (c\<lparr>operations := ops\<rparr>))
            | Some mfs \<Rightarrow>
               Option.bind (install Mutation (types s) mfs ops)
                 (\<lambda>r. case r of
                    Inl e \<Rightarrow> Some (Inl e)
                  | Inr ops' \<Rightarrow> Some (Inr (c\<lparr>operations := ops'\<rparr>)))))"

text \<open>
  \<^verbatim>\<open>_connect\<close> of the other revision (\<^verbatim>\<open>src/unnamed/part_000\<close>): the mutation loop is
  not guarded, and \<^verbatim>\<open>this.schema.getMutationType().getFields()\<close> throws a TypeError when
  the schema has no mutation type, and also when a query field named \<^verbatim>\<open>schema\<close> has
  replaced \<^verbatim>\<open>this.schema\<close>.
\<close>

definition connect_part_000 :: "schema \<Rightarrow> 'l client \<Rightarrow> (error + 'l client) option" where
  "connect_part_000 s c =
     Option.bind (install Query (types s) (queryType s) (operations c))
       (\<lambda>r. case r of
          Inl e \<Rightarrow> Some (Inl e)
        | Inr ops \<Rightarrow>
           if ''schema'' \<in> set (map field_name (queryType s)) then Some (Inl TypeError)
           else
           (case mutationType s of
              None \<Rightarrow> Some (Inl TypeError)
            | Some mfs \<Rightarrow>
               Option.bind (install Mutation (types s) mfs ops)
                 (\<lambda>r. case r of
                    Inl e \<Rightarrow> Some (Inl e)
                  | Inr ops' \<Rightarrow> Some (Inr (c\<lparr>operations := ops'\<rparr>)))))"

section \<open>Operation calls\<close>

text \<open>
  The argument of \<^verbatim>\<open>apollo.query\<close> or \<^verbatim>\<open>apollo.mutate\<close>: which of the two is called and
  on which instance, the document text given to \<^verbatim>\<open>gql\<close>, the variables, and the logger
  placed in the context. The transport is a parameter: it answers a request with the
  response's \<^verbatim>\<open>data\<close> object or throws. Call options are passed through to the transport
  and are not modelled.
\<close>

record ('l, 'v) request =
  req_kind :: kind
  req_apollo :: nat
  document :: string
  variables :: 'v
  context_logger :: 'l

type_synonym ('l, 'v) transport = "('l, 'v) request \<Rightarrow> error + (string \<rightharpoonup> jsval)"

text \<open>
  How a call ends: it returns a value, it throws, or it hands the error to
  \<^verbatim>\<open>logger.fail(code, e)\<close> and does whatever that does.
\<close>

datatype 'l outcome = Returned jsval | Raised error | Failed 'l string error

text \<open>\<^verbatim>\<open>if (!projections || isEmpty(projections)) projections = defaultProjections\<close>\<close>

definition effectiveProjections :: "jsval \<Rightarrow> projection \<Rightarrow> jsval" where
  "effectiveProjections projections dflt =
     (if \<not> truthy projections \<or> isEmpty projections then Obj dflt else projections)"

text \<open>The template literal given to \<^verbatim>\<open>gql\<close>.\<close>

definition buildDocument :: "operation \<Rightarrow> jsval \<Rightarrow> string" where
  "buildDocument op projections =
     (case op_kind op of Query \<Rightarrow> ''query'' | Mutation \<Rightarrow> ''mutation'')
     @ '' ('' @ queryArgDeclare op @ '') { '' @ op_field op @ '' ('' @ queryArgs op @ '') ''
     @ makeReturnExpr projections @ '' }''"

definition buildRequest ::
  "operation \<Rightarrow> nat \<Rightarrow> 'l \<Rightarrow> 'v \<Rightarrow> jsval \<Rightarrow> ('l, 'v) request" where
  "buildRequest op a lg vars projections =
     \<lparr>req_kind = op_kind op, req_apollo = a,
      document = buildDocument op (effectiveProjections projections (defaultProjections op)),
      variables = vars, context_logger = lg\<rparr>"

text \<open>
  The \<^verbatim>\<open>catch\<close> block. \<^verbatim>\<open>!e.networkError.statusCode\<close> holds of a missing status code
  and of the number 0.
\<close>

definition handleError :: "'l \<Rightarrow> error \<Rightarrow> 'l outcome" where
  "handleError lg e =
     (case networkError e of
        None \<Rightarrow> Raised e
      | Some ne \<Rightarrow>
         (if (case statusCode ne of None \<Rightarrow> True | Some sc \<Rightarrow> sc = 0 \<or> sc \<ge> 500)
          then Failed lg ''_failed_api_server_error'' e
          else Raised e))"

text \<open>
  The synthesized operation, called with \<^verbatim>\<open>(logger, variables, projections)\<close>; the
  logger argument is \<open>None\<close> when it is falsy. Reading \<^verbatim>\<open>this.apollo.query\<close> while
  \<^verbatim>\<open>this.apollo\<close> is \<^verbatim>\<open>undefined\<close> throws a TypeError inside the \<^verbatim>\<open>try\<close>.
\<close>

definition callOperation ::
  "('l, 'v) transport \<Rightarrow> operation \<Rightarrow> 'l client \<Rightarrow> 'l option \<Rightarrow> 'v \<Rightarrow> jsval
    \<Rightarrow> 'l outcome \<times> 'l client" where
  "callOperation execute op c lg vars projections =
     (let lg' = (case lg of Some l \<Rightarrow> l | None \<Rightarrow> logger c);
          c' = ensureClient c
      in case apollo c' of
           None \<Rightarrow> (handleError lg' TypeError, c')
         | Some a \<Rightarrow>
            (case execute (buildRequest op a lg' vars projections) of
               Inl e \<Rightarrow> (handleError lg' e, c')
             | Inr data \<Rightarrow>
                (Returned (case data (op_field op) of None \<Rightarrow> Undefined | Some v \<Rightarrow> v), c')))"

text \<open>Calling the member \<open>name\<close> of the client; a missing member is not callable.\<close>

definition invoke ::
  "('l, 'v) transport \<Rightarrow> 'l client \<Rightarrow> string \<Rightarrow> 'l option \<Rightarrow> 'v \<Rightarrow> jsval
    \<Rightarrow> 'l outcome \<times> 'l client" where
  "invoke execute c name lg vars projections =
     (case operations c name of
        None \<Rightarrow> (Raised TypeError, c)
      | Some op \<Rightarrow> callOperation execute op c lg vars projections)"

section \<open>The selection set as the specification words it\<close>

text \<open>
  The renderer in the specification's words, with \<^verbatim>\<open>null\<close> where the code puts it:
  an entry whose value is a nested projection gives the field name, a space and the
  rendered sub-selection; \<^verbatim>\<open>null\<close> gives the field name and a space; \<^verbatim>\<open>true\<close> (or a
  number other than 0) gives the bare field name; \<^verbatim>\<open>false\<close>, 0 and \<^verbatim>\<open>undefined\<close>
  give nothing. The entries are joined with a comma and a space and wrapped in braces
  unless there are none.
\<close>

fun spec_render :: "jsval \<Rightarrow> string" where
  "spec_render (Obj es) =
     (let included = concat (map (\<lambda>(field, v).
            case v of
              Obj sub \<Rightarrow> [field @ '' '' @ spec_render v]
            | Null \<Rightarrow> [field @ '' '']
            | Bool b \<Rightarrow> (if b then [field] else [])
            | Num n \<Rightarrow> (if n \<noteq> 0 then [field] else [])
            | Undefined \<Rightarrow> []) es)
      in if included = [] then '''' else ''{'' @ join '', '' included @ ''}'')"
| "spec_render v = ''''"

text \<open>Every field name of a projection, at every depth, is a non-empty string.\<close>

fun nonempty_names :: "jsval \<Rightarrow> bool" where
  "nonempty_names (Obj es) = list_all (\<lambda>(field, v). field \<noteq> '''' \<and> nonempty_names v) es"
| "nonempty_names v = True"

section \<open>Example schemas\<close>

text \<open>
  \<^verbatim>\<open>type User { id: ID!, name: String }\<close>,
  \<^verbatim>\<open>type Post { author: User!, id: ID! }\<close>, an object type \<^verbatim>\<open>Empty\<close> without fields,
  \<^verbatim>\<open>interface Node { id: ID }\<close>, \<^verbatim>\<open>union SearchResult = User | Post\<close>,
  \<^verbatim>\<open>enum Role\<close>; every other name is a scalar.
\<close>

definition exampleTypes :: type_map where
  "exampleTypes name =
     (if name = ''User'' then GraphQLObjectType
        [\<lparr>field_name = ''id'', field_args = [], field_type = NonNull (Named ''ID'')\<rparr>,
         \<lparr>field_name = ''name'', field_args = [], field_type = Named ''String''\<rparr>]
      else if name = ''Post'' then GraphQLObjectType
        [\<lparr>field_name = ''author'', field_args = [], field_type = NonNull (Named ''User'')\<rparr>,
         \<lparr>field_name = ''id'', field_args = [], field_type = NonNull (Named ''ID'')\<rparr>]
      else if name = ''Empty'' then GraphQLObjectType []
      else if name = ''Node'' then GraphQLInterfaceType
        [\<lparr>field_name = ''id'', field_args = [], field_type = Named ''ID''\<rparr>]
      else if name = ''SearchResult'' then GraphQLUnionType [''User'', ''Post'']
      else if name = ''Role'' then GraphQLEnumType
      else GraphQLScalarType)"

text \<open>\<^verbatim>\<open>user(id: ID!): User\<close>, \<^verbatim>\<open>node(id: ID!): Node\<close> and \<^verbatim>\<open>nothing: Empty\<close>.\<close>

definition userField :: field_def where
  "userField = \<lparr>field_name = ''user'',
      field_args = [\<lparr>arg_name = ''id'', arg_type = NonNull (Named ''ID'')\<rparr>],
      field_type = Named ''User''\<rparr>"

definition nodeField :: field_def where
  "nodeField = \<lparr>field_name = ''node'',
      field_args = [\<lparr>arg_name = ''id'', arg_type = NonNull (Named ''ID'')\<rparr>],
      field_type = Named ''Node''\<rparr>"

definition nothingField :: field_def where
  "nothingField = \<lparr>field_name = ''nothing'', field_args = [], field_type = Named ''Empty''\<rparr>"

text \<open>A mutation field that is also called \<^verbatim>\<open>user\<close>: \<^verbatim>\<open>user(name: String): Post\<close>.\<close>

definition userMutationField :: field_def where
  "userMutationField = \<lparr>field_name = ''user'',
      field_args = [\<lparr>arg_name = ''name'', arg_type = Named ''String''\<rparr>],
      field_type = Named ''Post''\<rparr>"

definition querySchema :: schema where
  "querySchema = \<lparr>types = exampleTypes, queryType = [userField, nodeField],
      mutationType = None\<rparr>"

definition collisionSchema :: schema where
  "collisionSchema = \<lparr>types = exampleTypes, queryType = [userField, nodeField],
      mutationType = Some [userMutationField]\<rparr>"

definition emptyTypeSchema :: schema where
  "emptyTypeSchema = \<lparr>types = exampleTypes, queryType = [userField, nothingField],
      mutationType = None\<rparr>"

text \<open>A schema without mutation type whose query type has a field \<^verbatim>\<open>schema: String\<close>.\<close>

definition schemaField :: field_def where
  "schemaField = \<lparr>field_name = ''schema'', field_args = [], field_type = Named ''String''\<rparr>"


text \<open>
  \<^verbatim>\<open>type Comment { parent: Comment!, id: ID! }\<close>, with \<^verbatim>\<open>ID\<close> and every other name
  a scalar.
\<close>

definition commentTypes :: type_map where
  "commentTypes name =
     (if name = ''Comment'' then GraphQLObjectType
        [\<lparr>field_name = ''parent'', field_args = [], field_type = NonNull (Named ''Comment'')\<rparr>,
         \<lparr>field_name = ''id'', field_args = [], field_type = NonNull (Named ''ID'')\<rparr>]
      else GraphQLScalarType)"

text \<open>The operations that \<^verbatim>\<open>_connect\<close> builds for these fields.\<close>

definition userOperation :: operation where
  "userOperation = \<lparr>op_kind = Query, op_field = ''user'', queryArgDeclare = ''$id: ID!'',
      queryArgs = ''id: $id'', defaultProjections = [(''name'', Bool True)]\<rparr>"

definition nodeOperation :: operation where
  "nodeOperation = \<lparr>op_kind = Query, op_field = ''node'', queryArgDeclare = ''$id: ID!'',
      queryArgs = ''id: $id'', defaultProjections = []\<rparr>"

definition userMutation :: operation where
  "userMutation = \<lparr>op_kind = Mutation, op_field = ''user'', queryArgDeclare = ''$name: String'',
      queryArgs = ''name: $name'',
      defaultProjections = [(''author'', Obj [(''name'', Bool True)])]\<rparr>"

text \<open>Transport errors with a status code, and GraphQL errors without a network error.\<close>

definition statusError :: "int \<Rightarrow> error" where
  "statusError sc = TransportError (Some (NetworkError (Some sc))) ''Network error''"

definition noStatusError :: error where
  "noStatusError = TransportError (Some (NetworkError None)) ''Network error''"

definition graphqlError :: error where
  "graphqlError = TransportError None ''GraphQL error''"

text \<open>
  A transport that answers one document with a value for the field \<^verbatim>\<open>user\<close> and throws
  a GraphQL error on every other document.
\<close>

definition answerTo :: "string \<Rightarrow> jsval \<Rightarrow> ('l, 'v) transport" where
  "answerTo doc v request =
     (if document request = doc then Inr [''user'' \<mapsto> v] else Inl graphqlError)"

section \<open>Type Expression Renderer: properties\<close>

text \<open>
  Claim C6. For every type reference of any nesting depth, rendering a named type
  gives its name, rendering a non-null wrapper gives the rendering of the inner type
  followed by an exclamation mark, and rendering a list wrapper gives the rendering of
  the inner type between square brackets; non-null of list of non-null of \<^verbatim>\<open>Int\<close>
  renders as \<^verbatim>\<open>[Int!]!\<close>.
\<close>

theorem makeFieldTypeExpr_rules:
  "makeFieldTypeExpr (Named name) = name
   \<and> makeFieldTypeExpr (NonNull inner) = makeFieldTypeExpr inner @ ''!''
   \<and> makeFieldTypeExpr (ListOf inner) = ''['' @ makeFieldTypeExpr inner @ '']''
   \<and> makeFieldTypeExpr (NonNull (ListOf (NonNull (Named ''Int'')))) = ''[Int!]!''"
  by simp

section \<open>Selection set rendering: properties\<close>

lemma join_empty_iff:
  "list_all (\<lambda>s. s \<noteq> '''') xs \<Longrightarrow> join sep xs = '''' \<longleftrightarrow> xs = []"
  by (induction sep xs rule: join.induct) auto

lemma filter_truthy_nonempty: "list_all (\<lambda>s. s \<noteq> '''') (filter_truthy vs)"
  by (induction vs rule: filter_truthy.induct) auto

lemma filter_truthy_concat:
  "filter_truthy vs =
     concat (map (\<lambda>v. case v of None \<Rightarrow> [] | Some s \<Rightarrow> if s = '''' then [] else [s]) vs)"
  by (induction vs rule: filter_truthy.induct) auto

text \<open>One entry: what the callback and the filter keep, against the specification's words.\<close>

lemma entry_agrees:
  assumes "field \<noteq> ''''"
    and "typeof_object v \<Longrightarrow> makeReturnExpr v = spec_render v"
  shows "(case (if typeof_object v then Some (field @ '' '' @ makeReturnExpr v)
                else if truthy v then Some field else None) of
            None \<Rightarrow> [] | Some s \<Rightarrow> if s = '''' then [] else [s])
       = (case v of
              Obj sub \<Rightarrow> [field @ '' '' @ spec_render v]
            | Null \<Rightarrow> [field @ '' '']
            | Bool b \<Rightarrow> (if b then [field] else [])
            | Num n \<Rightarrow> (if n \<noteq> 0 then [field] else [])
            | Undefined \<Rightarrow> [])"
  using assms by (cases v) auto

lemma makeReturnExpr_spec_render:
  "nonempty_names p \<Longrightarrow> makeReturnExpr p = spec_render p"
proof (induction p rule: makeReturnExpr.induct)
  case (1 es)
  let ?mapped = "map (\<lambda>(field, show).
                if typeof_object show then Some (field @ '' '' @ makeReturnExpr show)
                else if truthy show then Some field
                else None) es"
  let ?included = "concat (map (\<lambda>(field, v).
            case v of
              Obj sub \<Rightarrow> [field @ '' '' @ spec_render v]
            | Null \<Rightarrow> [field @ '' '']
            | Bool b \<Rightarrow> (if b then [field] else [])
            | Num n \<Rightarrow> (if n \<noteq> 0 then [field] else [])
            | Undefined \<Rightarrow> []) es)"
  have each: "\<And>field v. (field, v) \<in> set es \<Longrightarrow>
      field \<noteq> '''' \<and> (typeof_object v \<longrightarrow> makeReturnExpr v = spec_render v)"
  proof -
    fix field v
    assume mem: "(field, v) \<in> set es"
    with "1.prems" have ne: "field \<noteq> ''''" and nv: "nonempty_names v"
      by (auto simp: list_all_iff)
    from "1.IH"[OF mem refl _ nv]
    show "field \<noteq> '''' \<and> (typeof_object v \<longrightarrow> makeReturnExpr v = spec_render v)"
      using ne by simp
  qed
  have e: "filter_truthy ?mapped = ?included"
    unfolding filter_truthy_concat map_map comp_def
    by (rule arg_cong[where f = concat], rule map_cong[OF refl])
       (use each entry_agrees in \<open>auto simp del: typeof_object.simps truthy.simps\<close>)
  have "list_all (\<lambda>s. s \<noteq> '''') (filter_truthy ?mapped)"
    by (rule filter_truthy_nonempty)
  then have "join '', '' (filter_truthy ?mapped) = '''' \<longleftrightarrow> filter_truthy ?mapped = []"
    by (rule join_empty_iff)
  then show ?case
    unfolding makeReturnExpr.simps spec_render.simps Let_def e by simp
qed simp_all

text \<open>
  Claim C5, as the code has it. For every projection whose field names are non-empty,
  the renderer takes the entries in the projection's order: a nested projection gives
  the field name, a space and the rendered sub-selection; \<^verbatim>\<open>null\<close> is not omitted but
  gives the field name and a space; \<^verbatim>\<open>true\<close> gives the bare field name; \<^verbatim>\<open>false\<close>,
  0 and \<^verbatim>\<open>undefined\<close> are omitted. The entries kept are joined with a comma and a
  space and wrapped in braces, and no entry kept gives the empty string. Rendering
  \<^verbatim>\<open>{a: true, b: {c: true, d: false}}\<close> gives \<^verbatim>\<open>{a, b {c}}\<close>.
\<close>

theorem makeReturnExpr_renders:
  assumes "nonempty_names p"
  shows "makeReturnExpr p = spec_render p
     \<and> makeReturnExpr (Obj [(''a'', Bool True),
            (''b'', Obj [(''c'', Bool True), (''d'', Bool False)])]) = ''{a, b {c}}''"
  using makeReturnExpr_spec_render[OF assms] by simp

theorem makeReturnExpr_renders_witness:
  "nonempty_names (Obj [(''a'', Bool True), (''b'', Obj [(''c'', Bool True), (''d'', Bool False)]),
       (''e'', Undefined), (''f'', Obj [])])
   \<and> makeReturnExpr (Obj [(''a'', Bool True), (''b'', Obj [(''c'', Bool True), (''d'', Bool False)]),
       (''e'', Undefined), (''f'', Obj [])])
     = spec_render (Obj [(''a'', Bool True), (''b'', Obj [(''c'', Bool True), (''d'', Bool False)]),
       (''e'', Undefined), (''f'', Obj [])])
   \<and> spec_render (Obj [(''a'', Bool True), (''b'', Obj [(''c'', Bool True), (''d'', Bool False)]),
       (''e'', Undefined), (''f'', Obj [])]) = ''{a, b {c}, f }''"
proof -
  have h: "nonempty_names (Obj [(''a'', Bool True),
       (''b'', Obj [(''c'', Bool True), (''d'', Bool False)]),
       (''e'', Undefined), (''f'', Obj [])])"
    by simp
  show ?thesis
    using h makeReturnExpr_renders[OF h] by simp
qed

text \<open>
  The claim as stated fails on \<^verbatim>\<open>null\<close>: \<^verbatim>\<open>typeof null\<close> is \<^verbatim>\<open>'object'\<close>, so the entry
  takes the recursive branch, which renders \<^verbatim>\<open>null\<close> as the empty string, and the
  field name with its trailing space is kept.
\<close>

theorem makeReturnExpr_null_kept:
  "\<not> truthy Null
   \<and> makeReturnExpr (Obj [(''a'', Bool True), (''n'', Null)]) = ''{a, n }''"
  by simp

section \<open>Default Projection Selector: properties\<close>

lemma isLeafType_iff:
  "isLeafType tm t \<longleftrightarrow>
     (\<exists>name. t = Named name \<and> (tm name = GraphQLScalarType \<or> tm name = GraphQLEnumType))"
  by (cases t) (auto split: named_type.splits)

lemma makeDefaultProjection_first_leaf:
  assumes "tm T = GraphQLObjectType (pre @ f # post)"
    and "list_all (\<lambda>g. \<not> isLeafType tm (field_type g)) pre"
    and "isLeafType tm (field_type f)"
  shows "makeDefaultProjection tm T = Some (Inr [(field_name f, Bool True)])"
proof -
  have "find (\<lambda>field. isLeafType tm (field_type field)) (pre @ f # post) = Some f"
    using assms(2,3) by (induction pre) auto
  then show ?thesis
    using assms(1) by (subst makeDefaultProjection.simps) simp
qed

lemma makeDefaultProjection_no_leaf:
  assumes "tm T = GraphQLObjectType (f # rest)"
    and "list_all (\<lambda>g. \<not> isLeafType tm (field_type g)) (f # rest)"
  shows "makeDefaultProjection tm T =
     map_option (map_sum id (\<lambda>sub. [(field_name f, Obj sub)]))
       (makeDefaultProjection tm (getNamedType (field_type f)))"
proof -
  have "find (\<lambda>field. isLeafType tm (field_type field)) (f # rest) = None"
    using assms(2) by (simp add: find_None_iff list_all_iff)
  then have "makeDefaultProjection tm T =
     Option.bind (makeDefaultProjection tm (getNamedType (field_type f)))
       (\<lambda>r. case r of
          Inl e \<Rightarrow> Some (Inl e)
        | Inr sub \<Rightarrow> Some (Inr [(field_name f, Obj sub)]))"
    using assms(1) by (subst makeDefaultProjection.simps) simp
  also have "\<dots> = map_option (map_sum id (\<lambda>sub. [(field_name f, Obj sub)]))
       (makeDefaultProjection tm (getNamedType (field_type f)))"
    by (cases "makeDefaultProjection tm (getNamedType (field_type f))")
       (auto split: sum.splits)
  finally show ?thesis .
qed

lemma makeDefaultProjection_no_fields:
  assumes "tm T = GraphQLObjectType []"
  shows "makeDefaultProjection tm T = Some (Inl TypeError)"
  using assms by (subst makeDefaultProjection.simps) simp


text \<open>
  An object type none of whose fields passes the test of the scan and whose first field
  leads back to the type itself: the selector never returns.
\<close>

lemma makeDefaultProjection_self_cycle:
  assumes "tm T = GraphQLObjectType (f # rest)"
    and "list_all (\<lambda>g. \<not> isLeafType tm (field_type g)) (f # rest)"
    and "getNamedType (field_type f) = T"
  shows "makeDefaultProjection tm T = None"
proof (rule ccontr)
  assume "makeDefaultProjection tm T \<noteq> None"
  then obtain y where y: "makeDefaultProjection tm T = Some y" by auto
  have nf: "find (\<lambda>field. isLeafType tm (field_type field)) (f # rest) = None"
    using assms(2) by (simp add: find_None_iff list_all_iff)
  have "\<not> (tm' = tm \<and> T' = T)" if "makeDefaultProjection tm' T' = Some y'" for tm' T' y'
  proof (rule makeDefaultProjection.raw_induct
      [where P = "\<lambda>tm' T' y'. \<not> (tm' = tm \<and> T' = T)", OF _ that], goal_cases)
    case (1 mdp tm'' T'' y'')
    show ?case
    proof
      assume eq: "tm'' = tm \<and> T'' = T"
      with 1(2) assms(1,3) nf obtain r where "mdp tm T = Some r"
        by (auto simp: Option.bind_eq_Some_conv simp del: find.simps)
      from 1(1)[OF this] show False by simp
    qed
  qed
  from this[OF y] show False by simp
qed

text \<open>The example types, evaluated.\<close>

lemma exampleTypes_scalars:
  "exampleTypes ''ID'' = GraphQLScalarType" "exampleTypes ''String'' = GraphQLScalarType"
  by (simp_all add: exampleTypes_def)

lemma exampleTypes_others:
  "exampleTypes ''Empty'' = GraphQLObjectType []"
  "exampleTypes ''Node'' = GraphQLInterfaceType
     [\<lparr>field_name = ''id'', field_args = [], field_type = Named ''ID''\<rparr>]"
  "exampleTypes ''SearchResult'' = GraphQLUnionType [''User'', ''Post'']"
  by (simp_all add: exampleTypes_def)

lemma default_User:
  "makeDefaultProjection exampleTypes ''User'' = Some (Inr [(''name'', Bool True)])"
  by (simp add: makeDefaultProjection.simps exampleTypes_def)

lemma default_Post:
  "makeDefaultProjection exampleTypes ''Post''
     = Some (Inr [(''author'', Obj [(''name'', Bool True)])])"
  by (simp add: makeDefaultProjection.simps exampleTypes_def)

lemma default_Empty:
  "makeDefaultProjection exampleTypes ''Empty'' = Some (Inl TypeError)"
  by (simp add: makeDefaultProjection.simps exampleTypes_def)

lemma default_Node:
  "makeDefaultProjection exampleTypes ''Node'' = Some (Inr [])"
  by (simp add: makeDefaultProjection.simps exampleTypes_def)

text \<open>
  The scan as the code performs it. For every object type with at least one declared
  field: if some field's declared type passes \<^verbatim>\<open>isLeafType\<close> as it stands, the result
  is the single entry \<^verbatim>\<open>{fieldName: true}\<close> for the first such field; if none does,
  the result is that of the selector on the named type of the first declared field,
  nested under that field's name (and it raises or fails to return when that recursive
  call does). The test on line 132 is given \<^verbatim>\<open>field.type\<close> without the
  \<^verbatim>\<open>getNamedType\<close> that lines 35 and 138 apply, so a wrapped type such as non-null
  \<^verbatim>\<open>ID\<close> does not pass.
\<close>

lemma makeDefaultProjection_scan:
  assumes "tm T = GraphQLObjectType fs" and "fs = first # rest"
  shows "(fs = pre @ f # post \<and> list_all (\<lambda>g. \<not> isLeafType tm (field_type g)) pre
            \<and> isLeafType tm (field_type f)
          \<longrightarrow> makeDefaultProjection tm T = Some (Inr [(field_name f, Bool True)]))
     \<and> (list_all (\<lambda>g. \<not> isLeafType tm (field_type g)) fs
          \<longrightarrow> makeDefaultProjection tm T =
               map_option (map_sum id (\<lambda>sub. [(field_name first, Obj sub)]))
                 (makeDefaultProjection tm (getNamedType (field_type first))))
     \<and> (isLeafType tm t \<longleftrightarrow>
          (\<exists>name. t = Named name
             \<and> (tm name = GraphQLScalarType \<or> tm name = GraphQLEnumType)))
     \<and> \<not> isLeafType tm (NonNull t) \<and> \<not> isLeafType tm (ListOf t)"
proof (intro conjI impI)
  assume "fs = pre @ f # post \<and> list_all (\<lambda>g. \<not> isLeafType tm (field_type g)) pre
            \<and> isLeafType tm (field_type f)"
  with assms(1) show "makeDefaultProjection tm T = Some (Inr [(field_name f, Bool True)])"
    using makeDefaultProjection_first_leaf[of tm T pre f post] by simp
next
  assume "list_all (\<lambda>g. \<not> isLeafType tm (field_type g)) fs"
  with assms show "makeDefaultProjection tm T =
               map_option (map_sum id (\<lambda>sub. [(field_name first, Obj sub)]))
                 (makeDefaultProjection tm (getNamedType (field_type first)))"
    using makeDefaultProjection_no_leaf[of tm T first rest] by simp
next
  show "isLeafType tm t \<longleftrightarrow>
          (\<exists>name. t = Named name
             \<and> (tm name = GraphQLScalarType \<or> tm name = GraphQLEnumType))"
    by (rule isLeafType_iff)
qed simp_all

lemma makeDefaultProjection_scan_example:
  "exampleTypes ''User'' = GraphQLObjectType
     [\<lparr>field_name = ''id'', field_args = [], field_type = NonNull (Named ''ID'')\<rparr>,
      \<lparr>field_name = ''name'', field_args = [], field_type = Named ''String''\<rparr>]
   \<and> isLeafType exampleTypes (Named ''String'')
   \<and> makeDefaultProjection exampleTypes ''User'' = Some (Inr [(''name'', Bool True)])
   \<and> exampleTypes ''Post'' = GraphQLObjectType
     [\<lparr>field_name = ''author'', field_args = [], field_type = NonNull (Named ''User'')\<rparr>,
      \<lparr>field_name = ''id'', field_args = [], field_type = NonNull (Named ''ID'')\<rparr>]
   \<and> makeDefaultProjection exampleTypes ''Post''
       = Some (Inr [(''author'', Obj [(''name'', Bool True)])])"
proof -
  let ?id = "\<lparr>field_name = ''id'', field_args = [], field_type = NonNull (Named ''ID'')\<rparr>"
  let ?name = "\<lparr>field_name = ''name'', field_args = [], field_type = Named ''String''\<rparr>"
  let ?author = "\<lparr>field_name = ''author'', field_args = [],
                   field_type = NonNull (Named ''User'')\<rparr>"
  have u: "exampleTypes ''User'' = GraphQLObjectType [?id, ?name]"
    by (simp add: exampleTypes_def)
  have p: "exampleTypes ''Post'' = GraphQLObjectType [?author, ?id]"
    by (simp add: exampleTypes_def)
  have leaf: "isLeafType exampleTypes (Named ''String'')"
    by (simp add: exampleTypes_def)
  have user: "makeDefaultProjection exampleTypes ''User'' = Some (Inr [(''name'', Bool True)])"
    using makeDefaultProjection_scan[where tm = exampleTypes and T = "''User''"
        and fs = "[?id, ?name]" and first = ?id and rest = "[?name]"
        and pre = "[?id]" and f = ?name and post = "[]", OF u refl] leaf
    by simp
  have "makeDefaultProjection exampleTypes ''Post''
       = map_option (map_sum id (\<lambda>sub. [(field_name ?author, Obj sub)]))
           (makeDefaultProjection exampleTypes (getNamedType (field_type ?author)))"
    using makeDefaultProjection_scan[where tm = exampleTypes and T = "''Post''"
        and fs = "[?author, ?id]" and first = ?author and rest = "[?id]", OF p refl]
    by simp
  with user have "makeDefaultProjection exampleTypes ''Post''
       = Some (Inr [(''author'', Obj [(''name'', Bool True)])])"
    by simp
  with u p leaf user show ?thesis by simp
qed

text \<open>
  With the missing unwrap, a type whose first field leads back to it and whose scalar
  fields are all non-null has no field that passes the test, and the selector never
  returns: for \<^verbatim>\<open>Comment { parent: Comment!, id: ID! }\<close> it recurses into \<^verbatim>\<open>Comment\<close>
  again and again, where the scan that the claim describes would stop at \<^verbatim>\<open>id\<close>.
\<close>

lemma default_Comment: "makeDefaultProjection commentTypes ''Comment'' = None"
proof (rule makeDefaultProjection_self_cycle)
  show "commentTypes ''Comment'' = GraphQLObjectType
     (\<lparr>field_name = ''parent'', field_args = [], field_type = NonNull (Named ''Comment'')\<rparr>
      # [\<lparr>field_name = ''id'', field_args = [], field_type = NonNull (Named ''ID'')\<rparr>])"
    by (simp add: commentTypes_def)
qed simp_all

text \<open>
  Claim C1 says that the selector returns \<^verbatim>\<open>{fieldName: true}\<close> for the first declared
  field whose resolved type is a leaf, a field declared with a wrapped leaf type such
  as non-null \<^verbatim>\<open>ID\<close> counting as leaf-typed. The code does not do that: for
  \<^verbatim>\<open>User { id: ID!, name: String }\<close>, where \<^verbatim>\<open>ID\<close> is a scalar, the field \<^verbatim>\<open>id\<close> does
  not pass the test of the scan, and the default projection is \<^verbatim>\<open>{name: true}\<close>, not
  \<^verbatim>\<open>{id: true}\<close>.
\<close>

theorem makeDefaultProjection_wrapped_leaf:
  "exampleTypes ''ID'' = GraphQLScalarType
   \<and> \<not> isLeafType exampleTypes (NonNull (Named ''ID''))
   \<and> makeDefaultProjection exampleTypes ''User'' = Some (Inr [(''name'', Bool True)])
   \<and> makeDefaultProjection exampleTypes ''User'' \<noteq> Some (Inr [(''id'', Bool True)])"
  using default_User exampleTypes_scalars(1) by simp

section \<open>Operation Synthesizer: properties\<close>

lemma bind_result_Inr:
  "Option.bind m (\<lambda>r. case r of Inl e \<Rightarrow> Some (Inl e) | Inr x \<Rightarrow> g x) = Some (Inr y)
     \<longleftrightarrow> (\<exists>x. m = Some (Inr x) \<and> g x = Some (Inr y))"
proof (cases m)
  case None
  then show ?thesis by simp
next
  case (Some r)
  then show ?thesis by (cases r) simp_all
qed

lemma synthesize_Inr:
  assumes "synthesize k tm f = Some (Inr op)"
  shows "\<exists>d. makeDefaultProjection tm (getNamedType (field_type f)) = Some (Inr d)
           \<and> defaultProjections op = d"
    and "op_kind op = k" and "op_field op = field_name f"
  using assms
  by (auto simp: synthesize_def Let_def bind_result_Inr)


lemma install_Cons_Inr:
  assumes "install k tm (f # rest) ops = Some (Inr ops')"
  obtains op where "synthesize k tm f = Some (Inr op)"
    and "install k tm rest (ops(field_name f \<mapsto> op)) = Some (Inr ops')"
  using assms by (auto simp: bind_result_Inr)

lemma install_other:
  assumes "install k tm fs ops = Some (Inr ops')" and "n \<notin> field_name ` set fs"
  shows "ops' n = ops n"
  using assms
proof (induction fs arbitrary: ops)
  case Nil
  then show ?case by simp
next
  case (Cons f rest)
  from Cons.prems(1) obtain op where
    r: "install k tm rest (ops(field_name f \<mapsto> op)) = Some (Inr ops')"
    by (rule install_Cons_Inr)
  from Cons.prems(2) have "n \<notin> field_name ` set rest" and "n \<noteq> field_name f" by auto
  with Cons.IH[OF r] show ?case by simp
qed


lemma install_field:
  assumes "install k tm fs ops = Some (Inr ops')"
    and "distinct (map field_name fs)" and "f \<in> set fs"
  shows "\<exists>op. synthesize k tm f = Some (Inr op) \<and> ops' (field_name f) = Some op"
  using assms
proof (induction fs arbitrary: ops)
  case Nil
  then show ?case by simp
next
  case (Cons g rest)
  from Cons.prems(1) obtain op where
    s: "synthesize k tm g = Some (Inr op)" and
    r: "install k tm rest (ops(field_name g \<mapsto> op)) = Some (Inr ops')"
    by (rule install_Cons_Inr)
  show ?case
  proof (cases "f = g")
    case True
    from Cons.prems(2) have "field_name g \<notin> field_name ` set rest" by simp
    from install_other[OF r this] have "ops' (field_name g) = Some op" by simp
    with s True show ?thesis by simp
  next
    case False
    with Cons.prems have "f \<in> set rest" and "distinct (map field_name rest)" by simp_all
    with Cons.IH[OF r] show ?thesis by simp
  qed
qed


lemma install_projectable:
  assumes "install k tm fs ops = Some (Inr ops')" and "f \<in> set fs"
  shows "\<exists>d. makeDefaultProjection tm (getNamedType (field_type f)) = Some (Inr d)"
  using assms
proof (induction fs arbitrary: ops)
  case Nil
  then show ?case by simp
next
  case (Cons g rest)
  from Cons.prems(1) obtain op where
    s: "synthesize k tm g = Some (Inr op)" and
    r: "install k tm rest (ops(field_name g \<mapsto> op)) = Some (Inr ops')"
    by (rule install_Cons_Inr)
  show ?case
  proof (cases "f = g")
    case True
    with synthesize_Inr(1)[OF s] show ?thesis by blast
  next
    case False
    with Cons.prems(2) have "f \<in> set rest" by simp
    from Cons.IH[OF r this] show ?thesis .
  qed
qed


lemma connect_Inr_query:
  assumes "connect s c = Some (Inr c')"
  shows "\<exists>ops. install Query (types s) (queryType s) (operations c) = Some (Inr ops)"
  using assms by (auto simp: connect_def bind_result_Inr split: if_splits)

lemma connect_Inr_mutation:
  assumes "connect s c = Some (Inr c')" and "mutationType s = Some mfs"
  shows "\<exists>ops ops'. install Query (types s) (queryType s) (operations c) = Some (Inr ops)
           \<and> install Mutation (types s) mfs ops = Some (Inr ops')
           \<and> c' = c\<lparr>operations := ops'\<rparr>"
  using assms by (auto simp: connect_def bind_result_Inr split: if_splits)

lemma connect_part_000_Inr:
  assumes "connect_part_000 s c = Some (Inr c')"
  shows "\<exists>ops mfs ops'. install Query (types s) (queryType s) (operations c) = Some (Inr ops)
           \<and> mutationType s = Some mfs
           \<and> install Mutation (types s) mfs ops = Some (Inr ops')
           \<and> c' = c\<lparr>operations := ops'\<rparr>"
  using assms
  by (cases "mutationType s")
     (auto simp: connect_part_000_def bind_result_Inr split: if_splits)

text \<open>
  The other revision does not get past a schema without mutation type: when its query
  loop succeeds, it raises a TypeError.
\<close>

lemma connect_part_000_no_mutation:
  assumes "mutationType s = None"
  shows "connect_part_000 s c \<noteq> Some (Inr c')"
    and "install Query (types s) (queryType s) (operations c) = Some (Inr ops)
          \<Longrightarrow> connect_part_000 s c = Some (Inl TypeError)"
  using assms connect_part_000_Inr[of s c c'] by (auto simp: connect_part_000_def)

text \<open>The example fields and schemas, evaluated.\<close>

lemma field_names:
  "field_name userField = ''user''" "field_name nodeField = ''node''"
  "field_name nothingField = ''nothing''" "field_name userMutationField = ''user''"
  "field_name schemaField = ''schema''"
  "getNamedType (field_type userField) = ''User''"
  "getNamedType (field_type nodeField) = ''Node''"
  "getNamedType (field_type nothingField) = ''Empty''"
  "getNamedType (field_type userMutationField) = ''Post''"
  "getNamedType (field_type schemaField) = ''String''"
  by (simp_all add: userField_def nodeField_def nothingField_def userMutationField_def
      schemaField_def)


lemma synthesize_examples:
  "synthesize Query exampleTypes userField = Some (Inr userOperation)"
  "synthesize Query exampleTypes nodeField = Some (Inr nodeOperation)"
  "synthesize Mutation exampleTypes userMutationField = Some (Inr userMutation)"
  "synthesize Query exampleTypes nothingField = Some (Inl TypeError)"
  by (simp_all add: synthesize_def userField_def nodeField_def userMutationField_def
      nothingField_def userOperation_def nodeOperation_def userMutation_def
      default_User default_Node default_Post default_Empty)


lemma connect_querySchema:
  "connect querySchema (GraphQLClient lg t)
     = Some (Inr ((GraphQLClient lg t)
          \<lparr>operations := [''user'' \<mapsto> userOperation, ''node'' \<mapsto> nodeOperation]\<rparr>))"
  by (simp add: connect_def querySchema_def synthesize_examples GraphQLClient_def
      field_names)

lemma connect_part_000_querySchema:
  "connect_part_000 querySchema (GraphQLClient lg t) = Some (Inl TypeError)"
  by (simp add: connect_part_000_def querySchema_def synthesize_examples field_names)



lemma connect_collisionSchema:
  "connect collisionSchema (GraphQLClient lg t)
     = Some (Inr ((GraphQLClient lg t)
          \<lparr>operations := [''user'' \<mapsto> userOperation, ''node'' \<mapsto> nodeOperation,
                           ''user'' \<mapsto> userMutation]\<rparr>))"
  by (simp add: connect_def collisionSchema_def synthesize_examples GraphQLClient_def
      field_names)

text \<open>
  Claim C9. For every object type with no declared field, the selector raises a
  TypeError and returns no projection; and \<^verbatim>\<open>_connect\<close>, in either revision, does not
  succeed on a schema whose query type or mutation type has a field with such a return
  type.
\<close>

theorem makeDefaultProjection_no_fields_raises:
  assumes "types s (getNamedType (field_type f)) = GraphQLObjectType []"
    and "f \<in> set (queryType s) \<or> (\<exists>mfs. mutationType s = Some mfs \<and> f \<in> set mfs)"
  shows "makeDefaultProjection (types s) (getNamedType (field_type f)) = Some (Inl TypeError)
     \<and> connect s c \<noteq> Some (Inr c')
     \<and> connect_part_000 s c \<noteq> Some (Inr c')"
proof -
  have raises: "makeDefaultProjection (types s) (getNamedType (field_type f))
      = Some (Inl TypeError)"
    using assms(1) by (rule makeDefaultProjection_no_fields)
  have no: "\<And>k fs ops ops'. f \<in> set fs \<Longrightarrow> install k (types s) fs ops \<noteq> Some (Inr ops')"
  proof
    fix k fs ops ops'
    assume "f \<in> set fs" and "install k (types s) fs ops = Some (Inr ops')"
    from install_projectable[OF this(2) this(1)] raises show False by simp
  qed
  have "connect s c \<noteq> Some (Inr c')"
  proof
    assume ok: "connect s c = Some (Inr c')"
    from assms(2) show False
    proof
      assume "f \<in> set (queryType s)"
      with connect_Inr_query[OF ok] no show False by blast
    next
      assume "\<exists>mfs. mutationType s = Some mfs \<and> f \<in> set mfs"
      then obtain mfs where m: "mutationType s = Some mfs" and "f \<in> set mfs" by blast
      with connect_Inr_mutation[OF ok m] no show False by blast
    qed
  qed
  moreover have "connect_part_000 s c \<noteq> Some (Inr c')"
  proof
    assume ok: "connect_part_000 s c = Some (Inr c')"
    from connect_part_000_Inr[OF ok] obtain ops mfs ops' where
      q: "install Query (types s) (queryType s) (operations c) = Some (Inr ops)" and
      m: "mutationType s = Some mfs" and
      i: "install Mutation (types s) mfs ops = Some (Inr ops')"
      by blast
    from assms(2) show False
    proof
      assume "f \<in> set (queryType s)"
      with q no show False by blast
    next
      assume "\<exists>mfs. mutationType s = Some mfs \<and> f \<in> set mfs"
      with m have "f \<in> set mfs" by simp
      with i no show False by blast
    qed
  qed
  ultimately show ?thesis using raises by simp
qed

theorem makeDefaultProjection_no_fields_raises_witness:
  "types emptyTypeSchema (getNamedType (field_type nothingField)) = GraphQLObjectType []
   \<and> nothingField \<in> set (queryType emptyTypeSchema)
   \<and> makeDefaultProjection (types emptyTypeSchema) (getNamedType (field_type nothingField))
       = Some (Inl TypeError)
   \<and> (\<forall>c'. connect emptyTypeSchema (GraphQLClient () 100) \<noteq> Some (Inr c'))
   \<and> (\<forall>c'. connect_part_000 emptyTypeSchema (GraphQLClient () 100) \<noteq> Some (Inr c'))"
proof -
  have t: "types emptyTypeSchema (getNamedType (field_type nothingField))
      = GraphQLObjectType []"
    by (simp add: emptyTypeSchema_def field_names exampleTypes_others)
  have m: "nothingField \<in> set (queryType emptyTypeSchema)"
    by (simp add: emptyTypeSchema_def)
  then have m': "nothingField \<in> set (queryType emptyTypeSchema)
      \<or> (\<exists>mfs. mutationType emptyTypeSchema = Some mfs \<and> nothingField \<in> set mfs)"
    by simp
  show ?thesis
    using t m makeDefaultProjection_no_fields_raises[OF t m', of "GraphQLClient () 100"]
    by blast
qed






text \<open>
  Claim C7. For every schema in which the query type and the mutation type both have
  a field of the same name (field names being unique within the mutation type), after
  \<^verbatim>\<open>_connect\<close> the client holds under that name the operation synthesized from the
  mutation field, not the one synthesized from the query field, and invoking the name
  runs that mutation operation: the request goes to \<^verbatim>\<open>apollo.mutate\<close>.
\<close>

theorem connect_collision:
  assumes "connect s c = Some (Inr c')"
    and "mutationType s = Some mfs" and "distinct (map field_name mfs)"
    and "qf \<in> set (queryType s)" and "mf \<in> set mfs"
    and "field_name qf = field_name mf"
  shows "\<exists>op. synthesize Mutation (types s) mf = Some (Inr op)
     \<and> operations c' (field_name qf) = Some op
     \<and> op_kind op = Mutation
     \<and> synthesize Query (types s) qf \<noteq> Some (Inr op)
     \<and> invoke execute c' (field_name qf) lg vars p = callOperation execute op c' lg vars p
     \<and> req_kind (buildRequest op a l vars p) = Mutation"
proof -
  from connect_Inr_mutation[OF assms(1,2)] obtain ops ops' where
    m: "install Mutation (types s) mfs ops = Some (Inr ops')" and
    c': "c' = c\<lparr>operations := ops'\<rparr>"
    by blast
  from install_field[OF m assms(3,5)] obtain op where
    s: "synthesize Mutation (types s) mf = Some (Inr op)" and
    o: "ops' (field_name mf) = Some op"
    by blast
  have k: "op_kind op = Mutation" using s by (rule synthesize_Inr(2))
  have "synthesize Query (types s) qf \<noteq> Some (Inr op)"
  proof
    assume "synthesize Query (types s) qf = Some (Inr op)"
    from synthesize_Inr(2)[OF this] k show False by simp
  qed
  moreover have look: "operations c' (field_name qf) = Some op"
    using o c' assms(6) by simp
  moreover have "invoke execute c' (field_name qf) lg vars p
      = callOperation execute op c' lg vars p"
    using look by (simp add: invoke_def)
  moreover have "req_kind (buildRequest op a l vars p) = Mutation"
    using k by (simp add: buildRequest_def)
  ultimately show ?thesis using s k by blast
qed

theorem connect_collision_witness:
  "(\<exists>c'. connect collisionSchema (GraphQLClient () 100) = Some (Inr c')
       \<and> operations c' ''user'' = Some userMutation)
   \<and> mutationType collisionSchema = Some [userMutationField]
   \<and> userField \<in> set (queryType collisionSchema)
   \<and> field_name userField = field_name userMutationField
   \<and> synthesize Query (types collisionSchema) userField = Some (Inr userOperation)
   \<and> synthesize Mutation (types collisionSchema) userMutationField = Some (Inr userMutation)
   \<and> op_kind userMutation = Mutation"
proof -
  let ?c' = "(GraphQLClient () 100)
          \<lparr>operations := [''user'' \<mapsto> userOperation, ''node'' \<mapsto> nodeOperation,
                           ''user'' \<mapsto> userMutation]\<rparr>"
  have c: "connect collisionSchema (GraphQLClient () 100) = Some (Inr ?c')"
    by (rule connect_collisionSchema)
  have m: "mutationType collisionSchema = Some [userMutationField]"
    and q: "userField \<in> set (queryType collisionSchema)"
    and t: "types collisionSchema = exampleTypes"
    by (simp_all add: collisionSchema_def)
  have d: "distinct (map field_name [userMutationField])"
    and mf: "userMutationField \<in> set [userMutationField]"
    and n: "field_name userField = field_name userMutationField"
    by (simp_all add: field_names)
  from connect_collision[OF c m d q mf n, where execute = "\<lambda>r. Inl TypeError"
      and lg = None and vars = "()" and p = Undefined and a = 0 and l = "()"]
  obtain op where
    r: "synthesize Mutation (types collisionSchema) userMutationField = Some (Inr op)
     \<and> operations ?c' (field_name userField) = Some op
     \<and> op_kind op = Mutation" by (elim exE conjE) blast
  then have "op = userMutation" by (simp add: t synthesize_examples)
  with r c m q n show ?thesis
    by (auto simp: t synthesize_examples field_names)
qed

section \<open>Operation calls: properties\<close>

lemma ensureClient_frame:
  "resetStoreEvery (ensureClient c) = resetStoreEvery c
   \<and> logger (ensureClient c) = logger c
   \<and> operations (ensureClient c) = operations c"
  by (simp add: ensureClient_def Let_def)

lemma callOperation_state: "snd (callOperation execute op c lg vars p) = ensureClient c"
  by (simp add: callOperation_def Let_def split: option.splits sum.splits)

lemma apollo_kept:
  assumes "apollo (ensureClient c) = Some a"
  shows "\<exists>a'. apollo (ensureClient (ensureClient c)) = Some a'"
  using assms by (simp add: ensureClient_def[of "ensureClient c"] Let_def)

lemma callOperation_request:
  assumes "apollo (ensureClient c) = Some a"
  shows "fst (callOperation execute op c lg vars p)
       = (case execute
            \<lparr>req_kind = op_kind op, req_apollo = a,
             document = buildDocument op
               (case p of
                  Obj es \<Rightarrow> if es = [] then Obj (defaultProjections op) else Obj es
                | _ \<Rightarrow> Obj (defaultProjections op)),
             variables = vars,
             context_logger = (case lg of Some l \<Rightarrow> l | None \<Rightarrow> logger c)\<rparr> of
            Inl e \<Rightarrow> handleError (case lg of Some l \<Rightarrow> l | None \<Rightarrow> logger c) e
          | Inr data \<Rightarrow>
              Returned (case data (op_field op) of None \<Rightarrow> Undefined | Some v \<Rightarrow> v))"
proof -
  have "effectiveProjections p (defaultProjections op)
      = (case p of
           Obj es \<Rightarrow> if es = [] then Obj (defaultProjections op) else Obj es
         | _ \<Rightarrow> Obj (defaultProjections op))"
    by (cases p) (simp_all add: effectiveProjections_def)
  then show ?thesis
    using assms
    by (simp add: callOperation_def Let_def buildRequest_def split: sum.splits)
qed

text \<open>
  Claim C8. For every call of a synthesized operation that reaches the transport, the
  document of the request is built from the caller's projection when that is a
  non-empty mapping, and from the field's default projection when the caller's is
  absent, \<^verbatim>\<open>null\<close> or an empty mapping; the call ends as the transport's answer to
  that request decides. The default projection is not changed by the call: a later
  call of the same operation without a projection builds its document from the same
  default projection.
\<close>

theorem callOperation_projection:
  assumes "apollo (ensureClient c) = Some a"
  shows "fst (callOperation execute op c lg vars p)
       = (case execute
            \<lparr>req_kind = op_kind op, req_apollo = a,
             document = buildDocument op
               (case p of
                  Obj es \<Rightarrow> if es = [] then Obj (defaultProjections op) else Obj es
                | _ \<Rightarrow> Obj (defaultProjections op)),
             variables = vars,
             context_logger = (case lg of Some l \<Rightarrow> l | None \<Rightarrow> logger c)\<rparr> of
            Inl e \<Rightarrow> handleError (case lg of Some l \<Rightarrow> l | None \<Rightarrow> logger c) e
          | Inr data \<Rightarrow>
              Returned (case data (op_field op) of None \<Rightarrow> Undefined | Some v \<Rightarrow> v))
     \<and> (\<exists>a'. apollo (ensureClient (snd (callOperation execute op c lg vars p))) = Some a'
          \<and> fst (callOperation execute' op (snd (callOperation execute op c lg vars p))
                  lg' vars' Undefined)
             = (case execute'
                  \<lparr>req_kind = op_kind op, req_apollo = a',
                   document = buildDocument op (Obj (defaultProjections op)),
                   variables = vars',
                   context_logger = (case lg' of Some l \<Rightarrow> l | None \<Rightarrow> logger c)\<rparr> of
                  Inl e \<Rightarrow> handleError (case lg' of Some l \<Rightarrow> l | None \<Rightarrow> logger c) e
                | Inr data \<Rightarrow>
                    Returned (case data (op_field op) of None \<Rightarrow> Undefined | Some v \<Rightarrow> v)))"
proof -
  let ?c1 = "snd (callOperation execute op c lg vars p)"
  have c1: "?c1 = ensureClient c" by (rule callOperation_state)
  from apollo_kept[OF assms] obtain a' where
    a': "apollo (ensureClient ?c1) = Some a'"
    unfolding c1 by blast
  have lg1: "logger ?c1 = logger c"
    unfolding c1 by (simp add: ensureClient_frame)
  have "fst (callOperation execute' op ?c1 lg' vars' Undefined)
             = (case execute'
                  \<lparr>req_kind = op_kind op, req_apollo = a',
                   document = buildDocument op (Obj (defaultProjections op)),
                   variables = vars',
                   context_logger = (case lg' of Some l \<Rightarrow> l | None \<Rightarrow> logger c)\<rparr> of
                  Inl e \<Rightarrow> handleError (case lg' of Some l \<Rightarrow> l | None \<Rightarrow> logger c) e
                | Inr data \<Rightarrow>
                    Returned (case data (op_field op) of None \<Rightarrow> Undefined | Some v \<Rightarrow> v))"
    using callOperation_request[OF a', of execute' op lg' vars' Undefined]
    unfolding lg1 by simp
  with a' callOperation_request[OF assms, of execute op lg vars p] show ?thesis
    by blast
qed

theorem callOperation_projection_witness:
  "apollo (ensureClient (GraphQLClient () 100)) = Some 0
   \<and> fst (callOperation (answerTo ''query ($id: ID!) { user (id: $id) {id} }'' (Num 1))
           userOperation (GraphQLClient () 100) None () (Obj [(''id'', Bool True)]))
       = Returned (Num 1)
   \<and> fst (callOperation (answerTo ''query ($id: ID!) { user (id: $id) {name} }'' (Num 2))
           userOperation (GraphQLClient () 100) None () Null)
       = Returned (Num 2)
   \<and> fst (callOperation (answerTo ''query ($id: ID!) { user (id: $id) {name} }'' (Num 3))
           userOperation
           (snd (callOperation (answerTo ''query ($id: ID!) { user (id: $id) {id} }'' (Num 1))
                   userOperation (GraphQLClient () 100) None () (Obj [(''id'', Bool True)])))
           None () Undefined)
       = Returned (Num 3)"
proof -
  let ?idDoc = "''query ($id: ID!) { user (id: $id) {id} }''"
  let ?nameDoc = "''query ($id: ID!) { user (id: $id) {name} }''"
  have a: "apollo (ensureClient (GraphQLClient () 100)) = Some 0"
    by (simp add: ensureClient_def GraphQLClient_def MAX_SAFE_INTEGER_def increment_def)
  have docs: "buildDocument userOperation (Obj [(''id'', Bool True)]) = ?idDoc"
    "buildDocument userOperation (Obj (defaultProjections userOperation)) = ?nameDoc"
    by (simp_all add: buildDocument_def userOperation_def)
  have field: "op_field userOperation = ''user''" by (simp add: userOperation_def)
  have 1: "fst (callOperation (answerTo ?idDoc (Num 1)) userOperation (GraphQLClient () 100)
           None () (Obj [(''id'', Bool True)])) = Returned (Num 1)"
    using callOperation_projection[OF a, where execute = "answerTo ?idDoc (Num 1)"
        and op = userOperation and lg = None and vars = "()"
        and p = "Obj [(''id'', Bool True)]"
        and execute' = "answerTo ?nameDoc (Num 3)" and lg' = None and vars' = "()"]
    by (simp add: docs field answerTo_def)
  have 2: "fst (callOperation (answerTo ?nameDoc (Num 2)) userOperation (GraphQLClient () 100)
           None () Null) = Returned (Num 2)"
    using callOperation_projection[OF a, where execute = "answerTo ?nameDoc (Num 2)"
        and op = userOperation and lg = None and vars = "()" and p = Null
        and execute' = "answerTo ?nameDoc (Num 3)" and lg' = None and vars' = "()"]
    by (simp add: docs field answerTo_def)
  have 3: "fst (callOperation (answerTo ?nameDoc (Num 3)) userOperation
           (snd (callOperation (answerTo ?idDoc (Num 1)) userOperation
                   (GraphQLClient () 100) None () (Obj [(''id'', Bool True)])))
           None () Undefined) = Returned (Num 3)"
    using callOperation_projection[OF a, where execute = "answerTo ?idDoc (Num 1)"
        and op = userOperation and lg = None and vars = "()"
        and p = "Obj [(''id'', Bool True)]"
        and execute' = "answerTo ?nameDoc (Num 3)" and lg' = None and vars' = "()"]
    by (auto simp: docs field answerTo_def)
  from a 1 2 3 show ?thesis by (intro conjI)
qed

text \<open>
  Claim C2, as the code has it. For every call of a synthesized operation whose
  transport throws an error: when the error has a network error whose status code is
  missing, is 0, or is at least 500, the call hands the error to the \<^verbatim>\<open>fail\<close>
  capability of the effective logger with the code \<^verbatim>\<open>_failed_api_server_error\<close> and
  does not itself throw; for every other error (no network error, or a status code
  other than 0 below 500) it throws the error unchanged.
\<close>

theorem callOperation_failure:
  assumes "apollo (ensureClient c) = Some a"
    and "execute (buildRequest op a (case lg of Some l \<Rightarrow> l | None \<Rightarrow> logger c) vars p)
           = Inl e"
  shows "fst (callOperation execute op c lg vars p) =
     (if (\<exists>ne. networkError e = Some ne
            \<and> (statusCode ne = None \<or> statusCode ne = Some 0
                 \<or> (\<exists>sc. statusCode ne = Some sc \<and> 500 \<le> sc)))
      then Failed (case lg of Some l \<Rightarrow> l | None \<Rightarrow> logger c)
             ''_failed_api_server_error'' e
      else Raised e)"
proof -
  have "fst (callOperation execute op c lg vars p)
      = handleError (case lg of Some l \<Rightarrow> l | None \<Rightarrow> logger c) e"
    using assms by (simp add: callOperation_def Let_def)
  then show ?thesis
    by (cases "networkError e") (auto simp: handleError_def split: option.splits)
qed

section \<open>Transport Session Manager: properties\<close>

lemma ensureClient_construct:
  assumes "resetStoreEvery c \<le> counter c"
  shows "ensureClient c = c\<lparr>apollo := Some (constructed c),
            constructed := Suc (constructed c), counter := 1\<rparr>"
  using assms by (simp add: ensureClient_def increment_def)

lemma ensureClient_keep:
  assumes "counter c < resetStoreEvery c" and "counter c < 9007199254740992"
  shows "ensureClient c = c\<lparr>counter := counter c + 1\<rparr>"
  using assms by (simp add: ensureClient_def increment_def)

lemma calls_frame:
  "resetStoreEvery ((ensureClient ^^ n) c) = resetStoreEvery c"
  by (induction n) (simp_all add: ensureClient_frame)

lemma succ_div_wrap:
  fixes a t :: int
  assumes "0 < t" and "a mod t + 1 = t"
  shows "(a + 1) div t = a div t + 1 \<and> (a + 1) mod t = 0"
proof -
  have "a + 1 = t * (a div t) + (a mod t + 1)" by simp
  also have "\<dots> = t * (a div t) + t" by (simp only: assms(2))
  also have "\<dots> = t * (a div t + 1) + 0" by (simp add: algebra_simps)
  finally have eq: "a + 1 = t * (a div t + 1) + 0" .
  show ?thesis
    using int_div_pos_eq[OF eq] int_mod_pos_eq[OF eq] assms(1) by simp
qed

lemma succ_div_keep:
  fixes a t :: int
  assumes "0 < t" and "0 \<le> a" and "a mod t + 1 < t"
  shows "(a + 1) div t = a div t \<and> (a + 1) mod t = a mod t + 1"
proof -
  have eq: "a + 1 = t * (a div t) + (a mod t + 1)" by simp
  have "0 \<le> a mod t" using assms(1) by simp
  then have nn: "0 \<le> a mod t + 1" by simp
  show ?thesis
    using int_div_pos_eq[OF eq nn assms(3)] int_mod_pos_eq[OF eq nn assms(3)] by simp
qed

lemma calls_invariant:
  assumes "0 < t" and "t \<le> MAX_SAFE_INTEGER"
  shows "counter ((ensureClient ^^ Suc n) (GraphQLClient lg t)) = int n mod t + 1
       \<and> int (constructed ((ensureClient ^^ Suc n) (GraphQLClient lg t))) = int n div t + 1
       \<and> apollo ((ensureClient ^^ Suc n) (GraphQLClient lg t)) = Some (nat (int n div t))"
proof (induction n)
  case 0
  have "resetStoreEvery (GraphQLClient lg t) \<le> counter (GraphQLClient lg t)"
    using assms by (simp add: GraphQLClient_def)
  from ensureClient_construct[OF this] assms show ?case
    by (simp add: GraphQLClient_def)
next
  case (Suc n)
  let ?s = "(ensureClient ^^ Suc n) (GraphQLClient lg t)"
  have r: "resetStoreEvery ?s = t"
    by (simp only: calls_frame) (simp add: GraphQLClient_def)
  have step: "(ensureClient ^^ Suc (Suc n)) (GraphQLClient lg t) = ensureClient ?s"
    by simp
  have bound: "int n mod t < t" using assms(1) by simp
  show ?case
  proof (cases "int n mod t + 1 = t")
    case True
    then have "resetStoreEvery ?s \<le> counter ?s" using Suc r by simp
    from ensureClient_construct[OF this]
    have e: "ensureClient ?s = ?s\<lparr>apollo := Some (constructed ?s),
            constructed := Suc (constructed ?s), counter := 1\<rparr>" .
    have md: "(int n + 1) div t = int n div t + 1 \<and> (int n + 1) mod t = 0"
      using succ_div_wrap[OF assms(1) True] .
    have m: "int (Suc n) mod t = 0" using md by (simp add: add.commute)
    have d: "int (Suc n) div t = int n div t + 1" using md by (simp add: add.commute)
    have c: "int (constructed ?s) = int n div t + 1" using Suc by simp
    show ?thesis unfolding step e using m d c Suc
      by (simp add: nat_add_distrib)
  next
    case False
    then have lt: "int n mod t + 1 < t" using bound by simp
    then have "counter ?s < resetStoreEvery ?s" using Suc r by simp
    moreover have "counter ?s < 9007199254740992"
      using Suc lt assms(2) by (simp add: MAX_SAFE_INTEGER_def)
    ultimately have e: "ensureClient ?s = ?s\<lparr>counter := counter ?s + 1\<rparr>"
      by (rule ensureClient_keep)
    have md: "(int n + 1) div t = int n div t \<and> (int n + 1) mod t = int n mod t + 1"
      using succ_div_keep[OF assms(1) _ lt] by simp
    have m: "int (Suc n) mod t = int n mod t + 1" using md by (simp add: add.commute)
    have d: "int (Suc n) div t = int n div t" using md by (simp add: add.commute)
    show ?thesis unfolding step e using m d Suc by simp
  qed
qed

lemma ceiling_div:
  fixes a t :: int
  assumes "0 < t"
  shows "\<lceil>real_of_int a / real_of_int t\<rceil> = (a + t - 1) div t"
proof -
  have c: "\<lceil>real_of_int a / real_of_int t\<rceil> = - (- a div t)"
    by (rule ceiling_divide_eq_div)
  have nz: "t \<noteq> 0" using assms by simp
  show ?thesis
  proof (cases "a mod t = 0")
    case True
    have "a + t - 1 = t * (a div t) + (a mod t + (t - 1))" by simp
    then have eq: "a + t - 1 = t * (a div t) + (t - 1)" using True by simp
    have "(a + t - 1) div t = a div t"
      using int_div_pos_eq[OF eq] assms by simp
    then show ?thesis
      unfolding c zdiv_zminus1_eq_if[OF nz] using True by simp
  next
    case False
    have pos: "0 \<le> a mod t" and lt: "a mod t < t" using assms by simp_all
    have "a + t - 1 = t * (a div t) + (a mod t + (t - 1))" by simp
    then have eq: "a + t - 1 = t * (a div t + 1) + (a mod t - 1)"
      by (simp add: algebra_simps)
    have "(a + t - 1) div t = a div t + 1"
      using int_div_pos_eq[OF eq] pos lt False by simp
    then show ?thesis
      unfolding c zdiv_zminus1_eq_if[OF nz] using False by simp
  qed
qed

lemma apollo_fresh: "apollo (ensureClient (GraphQLClient lg 100)) = Some 0"
  by (simp add: ensureClient_def GraphQLClient_def MAX_SAFE_INTEGER_def increment_def)

theorem callOperation_failure_witness:
  "apollo (ensureClient (GraphQLClient () 100)) = Some 0
   \<and> fst (callOperation (\<lambda>r. Inl (statusError 503)) userOperation (GraphQLClient () 100)
           None () Undefined)
       = Failed () ''_failed_api_server_error'' (statusError 503)
   \<and> fst (callOperation (\<lambda>r. Inl (statusError 400)) userOperation (GraphQLClient () 100)
           None () Undefined)
       = Raised (statusError 400)
   \<and> fst (callOperation (\<lambda>r. Inl noStatusError) userOperation (GraphQLClient () 100)
           None () Undefined)
       = Failed () ''_failed_api_server_error'' noStatusError
   \<and> fst (callOperation (\<lambda>r. Inl graphqlError) userMutation (GraphQLClient () 100)
           None () Undefined)
       = Raised graphqlError"
proof -
  have a: "apollo (ensureClient (GraphQLClient () 100)) = Some 0"
    by (rule apollo_fresh)
  have 1: "fst (callOperation (\<lambda>r. Inl (statusError 503)) userOperation (GraphQLClient () 100)
           None () Undefined)
       = Failed () ''_failed_api_server_error'' (statusError 503)"
    using callOperation_failure[where execute = "\<lambda>r. Inl (statusError 503)"
        and op = userOperation and lg = None and vars = "()" and p = Undefined, OF a refl]
    by (simp add: statusError_def)
  have 2: "fst (callOperation (\<lambda>r. Inl (statusError 400)) userOperation (GraphQLClient () 100)
           None () Undefined)
       = Raised (statusError 400)"
    using callOperation_failure[where execute = "\<lambda>r. Inl (statusError 400)"
        and op = userOperation and lg = None and vars = "()" and p = Undefined, OF a refl]
    by (simp add: statusError_def)
  have 3: "fst (callOperation (\<lambda>r. Inl noStatusError) userOperation (GraphQLClient () 100)
           None () Undefined)
       = Failed () ''_failed_api_server_error'' noStatusError"
    using callOperation_failure[where execute = "\<lambda>r. Inl noStatusError"
        and op = userOperation and lg = None and vars = "()" and p = Undefined, OF a refl]
    by (simp add: noStatusError_def)
  have 4: "fst (callOperation (\<lambda>r. Inl graphqlError) userMutation (GraphQLClient () 100)
           None () Undefined)
       = Raised graphqlError"
    using callOperation_failure[where execute = "\<lambda>r. Inl graphqlError"
        and op = userMutation and lg = None and vars = "()" and p = Undefined, OF a refl]
    by (simp add: graphqlError_def)
  from a 1 2 3 4 show ?thesis by simp
qed

text \<open>
  The claim as stated fails on the status code 0: it is below 500, and the call does
  not throw the error but hands it to \<^verbatim>\<open>logger.fail\<close>, since \<^verbatim>\<open>!0\<close> is true.
\<close>

theorem callOperation_status_zero:
  "networkError (statusError 0) = Some (NetworkError (Some 0))
   \<and> (0 :: int) < 500
   \<and> fst (callOperation (\<lambda>r. Inl (statusError 0)) userOperation (GraphQLClient () 100)
           None () Undefined)
       = Failed () ''_failed_api_server_error'' (statusError 0)"
  by (simp add: callOperation_def Let_def apollo_fresh handleError_def statusError_def)

lemma constructed_ceiling:
  assumes "0 < t" and "t \<le> MAX_SAFE_INTEGER"
  shows "int (constructed ((ensureClient ^^ n) (GraphQLClient lg t)))
      = \<lceil>real n / real_of_int t\<rceil>"
proof (cases n)
  case 0
  then show ?thesis by (simp add: GraphQLClient_def)
next
  case (Suc m)
  have "\<lceil>real (Suc m) / real_of_int t\<rceil> = \<lceil>real_of_int (int (Suc m)) / real_of_int t\<rceil>"
    by simp
  also have "\<dots> = (int (Suc m) + t - 1) div t"
    using assms(1) by (rule ceiling_div)
  also have "\<dots> = (int m + t) div t" by simp
  also have "\<dots> = int m div t + 1"
    using assms(1) by simp
  finally show ?thesis
    using calls_invariant[OF assms, of m lg] Suc by simp
qed

text \<open>
  Claim C3, as the code has it. For every recycle threshold \<open>t\<close> with
  \<open>0 < t \<le> 2^53 - 1\<close>, starting from a freshly constructed client, \<open>n\<close> calls of
  \<^verbatim>\<open>_ensureClient\<close> construct exactly \<open>\<lceil>n / t\<rceil>\<close> ApolloClient instances; the first call
  constructs one and leaves the counter at 1; and each call constructs a new instance
  exactly when the counter has reached the threshold, leaving the counter at 1 then
  and one higher than before otherwise.
\<close>

theorem ensureClient_recycles:
  assumes "0 < t" and "t \<le> MAX_SAFE_INTEGER"
  shows "int (constructed ((ensureClient ^^ n) (GraphQLClient lg t)))
         = \<lceil>real n / real_of_int t\<rceil>
     \<and> apollo (ensureClient (GraphQLClient lg t)) = Some 0
     \<and> constructed (ensureClient (GraphQLClient lg t)) = 1
     \<and> counter (ensureClient (GraphQLClient lg t)) = 1
     \<and> (let s = (ensureClient ^^ n) (GraphQLClient lg t); s' = ensureClient s
        in if resetStoreEvery s \<le> counter s
           then constructed s' = Suc (constructed s) \<and> apollo s' = Some (constructed s)
                \<and> counter s' = 1
           else constructed s' = constructed s \<and> apollo s' = apollo s
                \<and> counter s' = counter s + 1)"
proof -
  let ?s = "(ensureClient ^^ n) (GraphQLClient lg t)"
  have first: "apollo (ensureClient (GraphQLClient lg t)) = Some 0
     \<and> constructed (ensureClient (GraphQLClient lg t)) = 1
     \<and> counter (ensureClient (GraphQLClient lg t)) = 1"
    using calls_invariant[OF assms, of 0 lg] assms(1) by simp
  have r: "resetStoreEvery ?s = t"
    by (simp only: calls_frame) (simp add: GraphQLClient_def)
  have step: "if resetStoreEvery ?s \<le> counter ?s
           then constructed (ensureClient ?s) = Suc (constructed ?s)
                \<and> apollo (ensureClient ?s) = Some (constructed ?s)
                \<and> counter (ensureClient ?s) = 1
           else constructed (ensureClient ?s) = constructed ?s
                \<and> apollo (ensureClient ?s) = apollo ?s
                \<and> counter (ensureClient ?s) = counter ?s + 1"
  proof (cases "resetStoreEvery ?s \<le> counter ?s")
    case True
    from ensureClient_construct[OF True] True show ?thesis by simp
  next
    case False
    then have lt: "counter ?s < resetStoreEvery ?s" by simp
    then have "counter ?s < 9007199254740992"
      using r assms(2) by (simp add: MAX_SAFE_INTEGER_def)
    from ensureClient_keep[OF lt this] False show ?thesis by simp
  qed
  show ?thesis
    using constructed_ceiling[OF assms, of n lg] first step by (simp add: Let_def)
qed

theorem ensureClient_recycles_witness:
  "(0 :: int) < 3 \<and> 3 \<le> MAX_SAFE_INTEGER
   \<and> constructed ((ensureClient ^^ 7) (GraphQLClient () 3)) = 3
   \<and> apollo (ensureClient (GraphQLClient () 3)) = Some 0
   \<and> counter (ensureClient (GraphQLClient () 3)) = 1"
proof -
  have h: "(0 :: int) < 3" "3 \<le> MAX_SAFE_INTEGER"
    by (simp_all add: MAX_SAFE_INTEGER_def)
  have "\<lceil>real 7 / real_of_int 3\<rceil> = 3" by simp
  with ensureClient_recycles[OF h, of 7 "()"] h show ?thesis
    by simp
qed

text \<open>
  The claim as stated fails above the sentinel: with the threshold \<open>2^53\<close> the first
  call finds the counter below the threshold and constructs nothing.
\<close>

theorem ensureClient_large_threshold:
  "(0 :: int) < 9007199254740992
   \<and> apollo (ensureClient (GraphQLClient () 9007199254740992)) = None
   \<and> constructed (ensureClient (GraphQLClient () 9007199254740992)) = 0"
  by (simp add: ensureClient_def GraphQLClient_def MAX_SAFE_INTEGER_def increment_def)

end
